theory Spec2Isabelle
  imports Main
begin

section \<open>The Singleton class of \<^verbatim>\<open>src/Singleton/singleton.py\<close>\<close>

text \<open>
  The source, in full:
  \<^verbatim>\<open>
  class Singleton:
      _instance = None

      def __new__(cls, *args, **kwargs):
          if not cls._instance:
              cls._instance = super(Singleton, cls).__new__(cls, *args, **kwargs)
          return cls._instance

  # Usage
  singleton1 = Singleton()
  singleton2 = Singleton()

  print(singleton1 is singleton2)  # Output: True
  \<close>
  The class statement opens no base list, so under Python 3 (the \<^verbatim>\<open>print(...)\<close> call
  and the documented output belong to it) \<^verbatim>\<open>Singleton\<close> derives from \<^verbatim>\<open>object\<close> and
  \<^verbatim>\<open>super(Singleton, cls).__new__\<close> is \<^verbatim>\<open>object.__new__\<close>.
\<close>

subsection \<open>Values, objects and the heap\<close>

type_synonym addr = nat

text \<open>What the slot and the two module globals can hold: \<^verbatim>\<open>None\<close> or a reference.\<close>

datatype pyval = PyNone | Ref addr

text \<open>Argument values of a call. The program never inspects them.\<close>

datatype pyarg = IntArg int | StrArg string | ValArg pyval

text \<open>\<^verbatim>\<open>*args, **kwargs\<close>: the positional tuple and the keyword dictionary of one call.\<close>

record call_args =
  pos_args :: "pyarg list"
  kw_args :: "(string \<times> pyarg) list"

datatype error = TypeError | NameError

text \<open>
  What the interpreter needs to know of a class here: whether it defines \<^verbatim>\<open>__new__\<close>
  or \<^verbatim>\<open>__init__\<close> of its own, and what the truth test of an instance gives.
  \<open>tp_bool = None\<close> stands for a class with neither \<^verbatim>\<open>__bool__\<close> nor \<^verbatim>\<open>__len__\<close>;
  \<open>Some b\<close> for a class whose hook makes the test answer \<open>b\<close>.
\<close>

record pytype =
  tp_name :: string
  tp_overrides_new :: bool
  tp_overrides_init :: bool
  tp_bool :: "bool option"

record pyobj =
  ob_type :: pytype

text \<open>
  The class statement of the source: \<^verbatim>\<open>__new__\<close> is defined, \<^verbatim>\<open>__init__\<close>,
  \<^verbatim>\<open>__bool__\<close> and \<^verbatim>\<open>__len__\<close> are not.
\<close>

definition Singleton_type :: pytype where
  "Singleton_type =
     \<lparr>tp_name = ''Singleton'', tp_overrides_new = True, tp_overrides_init = False,
      tp_bool = None\<rparr>"

text \<open>
  The instrumentation: one entry for each execution of the \<^verbatim>\<open>super(...).__new__\<close>
  call, with the arguments it received and how it ended, and one for each assignment to
  \<^verbatim>\<open>cls._instance\<close>. The program never reads it.
\<close>

datatype event = SuperNew call_args "error + pyval" | SetInstance pyval

text \<open>
  The process state: the class attribute \<^verbatim>\<open>Singleton._instance\<close>, the heap (an object's
  address is its index), the two module globals (\<open>None\<close> while the name is unbound) and
  the lines printed so far.
\<close>

record state =
  Singleton_instance :: pyval
  heap :: "pyobj list"
  singleton1 :: "pyval option"
  singleton2 :: "pyval option"
  stdout :: "string list"
  trace :: "event list"

subsection \<open>The interpreter's part\<close>

definition excess_args :: "call_args \<Rightarrow> bool" where
  "excess_args a = (pos_args a \<noteq> [] \<or> kw_args a \<noteq> [])"

definition no_args :: call_args where
  "no_args = \<lparr>pos_args = [], kw_args = []\<rparr>"

text \<open>
  \<^verbatim>\<open>object.__new__(cls, *args, **kwargs)\<close>: with arguments beyond the class it raises
  TypeError when the class defines \<^verbatim>\<open>__new__\<close> or does not define \<^verbatim>\<open>__init__\<close>;
  otherwise it allocates a new object of the class.
\<close>

definition object_new :: "pytype \<Rightarrow> call_args \<Rightarrow> pyobj list \<Rightarrow> error + (pyval \<times> pyobj list)" where
  "object_new tp a h =
     (if excess_args a \<and> (tp_overrides_new tp \<or> \<not> tp_overrides_init tp) then Inl TypeError
      else Inr (Ref (length h), h @ [\<lparr>ob_type = tp\<rparr>]))"

text \<open>
  \<^verbatim>\<open>object.__init__(self, *args, **kwargs)\<close>: with arguments beyond the instance it
  raises TypeError when the class defines \<^verbatim>\<open>__init__\<close> or does not define \<^verbatim>\<open>__new__\<close>;
  otherwise it does nothing.
\<close>

definition object_init :: "pytype \<Rightarrow> call_args \<Rightarrow> error + unit" where
  "object_init tp a =
     (if excess_args a \<and> (tp_overrides_init tp \<or> \<not> tp_overrides_new tp) then Inl TypeError
      else Inr ())"

text \<open>
  The truth test behind \<^verbatim>\<open>not x\<close>: \<^verbatim>\<open>None\<close> is false; an object answers through its
  class's hook and is true when the class has none. A reference beyond the heap does
  not arise (references come from allocation only).
\<close>

fun truthy :: "pyobj list \<Rightarrow> pyval \<Rightarrow> bool" where
  "truthy h PyNone = False"
| "truthy h (Ref a) =
     (if a < length h then (case tp_bool (ob_type (h ! a)) of None \<Rightarrow> True | Some b \<Rightarrow> b)
      else True)"

fun isinstance :: "pyobj list \<Rightarrow> pyval \<Rightarrow> pytype \<Rightarrow> bool" where
  "isinstance h PyNone tp = False"
| "isinstance h (Ref a) tp = (a < length h \<and> ob_type (h ! a) = tp)"

text \<open>\<^verbatim>\<open>x is y\<close> on these values: the same \<^verbatim>\<open>None\<close> or the same address.\<close>

definition py_is :: "pyval \<Rightarrow> pyval \<Rightarrow> bool" where
  "py_is x y = (x = y)"

definition str_bool :: "bool \<Rightarrow> string" where
  "str_bool b = (if b then ''True'' else ''False'')"

subsection \<open>\<^verbatim>\<open>Singleton.__new__\<close> and the call \<^verbatim>\<open>Singleton(...)\<close>\<close>

text \<open>
  Lines 4 to 7, with \<^verbatim>\<open>cls\<close> the class \<^verbatim>\<open>Singleton\<close>. An error raised by
  \<^verbatim>\<open>object.__new__\<close> leaves the function before the assignment.
\<close>

definition Singleton_new :: "call_args \<Rightarrow> state \<Rightarrow> (error + pyval) \<times> state" where
  "Singleton_new a s =
     (if \<not> truthy (heap s) (Singleton_instance s) then
        (case object_new Singleton_type a (heap s) of
           Inl e \<Rightarrow> (Inl e, s\<lparr>trace := trace s @ [SuperNew a (Inl e)]\<rparr>)
         | Inr (r, h) \<Rightarrow>
             (let s1 = s\<lparr>heap := h, trace := trace s @ [SuperNew a (Inr r)]\<rparr>;
                  s2 = s1\<lparr>Singleton_instance := r, trace := trace s1 @ [SetInstance r]\<rparr>
              in (Inr (Singleton_instance s2), s2)))
      else (Inr (Singleton_instance s), s))"

text \<open>
  The call expression \<^verbatim>\<open>Singleton(*args, **kwargs)\<close>, which is \<^verbatim>\<open>type.__call__\<close>: it
  runs \<^verbatim>\<open>__new__\<close> and, when the result is an instance of the class, the inherited
  \<^verbatim>\<open>object.__init__\<close> on it with the same arguments.
\<close>

definition Singleton_call :: "call_args \<Rightarrow> state \<Rightarrow> (error + pyval) \<times> state" where
  "Singleton_call a s =
     (case Singleton_new a s of
        (Inl e, s1) \<Rightarrow> (Inl e, s1)
      | (Inr obj, s1) \<Rightarrow>
          (if isinstance (heap s1) obj Singleton_type then
             (case object_init Singleton_type a of
                Inl e \<Rightarrow> (Inl e, s1)
              | Inr u \<Rightarrow> (Inr obj, s1))
           else (Inr obj, s1)))"

text \<open>
  A client making one call after the other, each with its own arguments, going on after
  a call that raised: the result of every call and the state at the end.
\<close>

fun run_calls :: "call_args list \<Rightarrow> state \<Rightarrow> (error + pyval) list \<times> state" where
  "run_calls [] s = ([], s)"
| "run_calls (a # as) s =
     (case Singleton_call a s of
        (r, s1) \<Rightarrow> (case run_calls as s1 of (rs, s2) \<Rightarrow> (r # rs, s2)))"

subsection \<open>The module body\<close>

text \<open>The state once the class statement (lines 1 to 7) has run.\<close>

definition fresh_state :: state where
  "fresh_state =
     \<lparr>Singleton_instance = PyNone, heap = [], singleton1 = None, singleton2 = None,
      stdout = [], trace = []\<rparr>"

text \<open>
  Lines 10 to 13. An error raised by a call ends the module's execution; \<^verbatim>\<open>print\<close>
  reads the two globals (an unbound name would raise NameError) and writes one line.
\<close>

definition module_usage :: "state \<Rightarrow> error + state" where
  "module_usage s =
     (case Singleton_call no_args s of
        (Inl e, s1) \<Rightarrow> Inl e
      | (Inr r1, s1) \<Rightarrow>
          (let s2 = s1\<lparr>singleton1 := Some r1\<rparr> in
           case Singleton_call no_args s2 of
             (Inl e, s3) \<Rightarrow> Inl e
           | (Inr r2, s3) \<Rightarrow>
               (let s4 = s3\<lparr>singleton2 := Some r2\<rparr> in
                case (singleton1 s4, singleton2 s4) of
                  (Some x, Some y) \<Rightarrow> Inr (s4\<lparr>stdout := stdout s4 @ [str_bool (py_is x y)]\<rparr>)
                | _ \<Rightarrow> Inl NameError)))"

definition module_exec :: "error + state" where
  "module_exec = module_usage fresh_state"

subsection \<open>Notions the properties are stated with\<close>

text \<open>Readings of the instrumentation.\<close>

fun is_super_new :: "event \<Rightarrow> bool" where
  "is_super_new (SuperNew a r) = True"
| "is_super_new (SetInstance r) = False"

fun is_new_returned :: "event \<Rightarrow> bool" where
  "is_new_returned (SuperNew a (Inr r)) = True"
| "is_new_returned (SuperNew a (Inl e)) = False"
| "is_new_returned (SetInstance r) = False"

fun is_set_instance :: "event \<Rightarrow> bool" where
  "is_set_instance (SetInstance r) = True"
| "is_set_instance (SuperNew a r) = False"

text \<open>How often the \<^verbatim>\<open>super(...).__new__\<close> call has been executed.\<close>

definition new_executions :: "state \<Rightarrow> nat" where
  "new_executions s = length (filter is_super_new (trace s))"

text \<open>How often it has returned an object.\<close>

definition new_returns :: "state \<Rightarrow> nat" where
  "new_returns s = length (filter is_new_returned (trace s))"

text \<open>How often \<^verbatim>\<open>cls._instance\<close> has been assigned.\<close>

definition slot_assignments :: "state \<Rightarrow> nat" where
  "slot_assignments s = length (filter is_set_instance (trace s))"

text \<open>The slot is \<^verbatim>\<open>None\<close> or refers to an object of the heap, of class \<^verbatim>\<open>Singleton\<close>.\<close>

definition slot_ok :: "state \<Rightarrow> bool" where
  "slot_ok s =
     (case Singleton_instance s of
        PyNone \<Rightarrow> True
      | Ref a \<Rightarrow> a < length (heap s) \<and> ob_type (heap s ! a) = Singleton_type)"

text \<open>The two states of the specification's state machine.\<close>

datatype phase = Uninitialized | Initialized

definition phase_of :: "state \<Rightarrow> phase" where
  "phase_of s = (if Singleton_instance s = PyNone then Uninitialized else Initialized)"

text \<open>Sample inputs: a call with one positional argument, the call \<^verbatim>\<open>Singleton(1)\<close>.\<close>

definition one_arg :: call_args where
  "one_arg = \<lparr>pos_args = [IntArg 1], kw_args = []\<rparr>"

text \<open>A call with one keyword argument, the call \<^verbatim>\<open>Singleton(name='x')\<close>.\<close>

definition kw_arg :: call_args where
  "kw_arg = \<lparr>pos_args = [], kw_args = [(''name'', StrArg ''x'')]\<rparr>"


section \<open>Single calls\<close>

text \<open>
  The three ways one call can go: the slot holds an instance of the class, the slot is
  \<^verbatim>\<open>None\<close> and \<^verbatim>\<open>object.__new__\<close> rejects the arguments, the slot is \<^verbatim>\<open>None\<close> and the
  object is built.
\<close>

lemma call_populated:
  "Singleton_instance s = Ref r \<Longrightarrow> r < length (heap s) \<Longrightarrow>
   ob_type (heap s ! r) = Singleton_type \<Longrightarrow> Singleton_call a s = (Inr (Ref r), s)"
  by (simp add: Singleton_call_def Singleton_new_def Singleton_type_def object_init_def)

lemma call_absent_raises:
  "Singleton_instance s = PyNone \<Longrightarrow> excess_args a \<Longrightarrow>
   Singleton_call a s = (Inl TypeError, s\<lparr>trace := trace s @ [SuperNew a (Inl TypeError)]\<rparr>)"
  by (simp add: Singleton_call_def Singleton_new_def Singleton_type_def object_new_def)

lemma call_absent_constructs:
  "Singleton_instance s = PyNone \<Longrightarrow> \<not> excess_args a \<Longrightarrow>
   Singleton_call a s =
     (Inr (Ref (length (heap s))),
      s\<lparr>heap := heap s @ [\<lparr>ob_type = Singleton_type\<rparr>],
        trace := trace s @ [SuperNew a (Inr (Ref (length (heap s)))), SetInstance (Ref (length (heap s)))],
        Singleton_instance := Ref (length (heap s))\<rparr>)"
  by (simp add: Singleton_call_def Singleton_new_def object_new_def object_init_def Let_def)

text \<open>
  What no call touches: the two module globals, the printed lines and the objects
  already on the heap.
\<close>

lemma call_frame:
  "singleton1 (snd (Singleton_call b t)) = singleton1 t \<and>
   singleton2 (snd (Singleton_call b t)) = singleton2 t \<and>
   stdout (snd (Singleton_call b t)) = stdout t \<and>
   take (length (heap t)) (heap (snd (Singleton_call b t))) = heap t"
  by (simp add: Singleton_call_def Singleton_new_def object_new_def object_init_def Let_def
      split: sum.splits prod.splits)

lemma call_slot_frame:
  "Singleton_instance (snd (Singleton_call b t)) = Singleton_instance t \<and>
     heap (snd (Singleton_call b t)) = heap t \<or>
   Singleton_instance (snd (Singleton_call b t)) = Ref (length (heap t)) \<and>
     heap (snd (Singleton_call b t)) = heap t @ [\<lparr>ob_type = Singleton_type\<rparr>] \<and>
     fst (Singleton_call b t) = Inr (Ref (length (heap t)))"
  by (simp add: Singleton_call_def Singleton_new_def object_new_def object_init_def Let_def
      Singleton_type_def)


lemma call_slot_ok_populated:
  "slot_ok s \<Longrightarrow> Singleton_instance s \<noteq> PyNone \<Longrightarrow>
   Singleton_call a s = (Inr (Singleton_instance s), s)"
  by (cases "Singleton_instance s") (simp_all add: slot_ok_def call_populated)

lemma fresh_state_fields:
  "Singleton_instance fresh_state = PyNone" "heap fresh_state = []" "trace fresh_state = []"
  "singleton1 fresh_state = None" "singleton2 fresh_state = None" "stdout fresh_state = []"
  by (simp_all add: fresh_state_def)

lemma excess_one_arg: "excess_args one_arg"
  by (simp add: excess_args_def one_arg_def)


text \<open>
  The definitions a concrete run is evaluated with.
\<close>

lemmas eval_defs = Singleton_call_def Singleton_new_def object_new_def object_init_def
  fresh_state_def no_args_def one_arg_def kw_arg_def excess_args_def Singleton_type_def Let_def

section \<open>Sequences of calls\<close>

lemma run_populated:
  "Singleton_instance s = Ref r \<Longrightarrow> r < length (heap s) \<Longrightarrow>
   ob_type (heap s ! r) = Singleton_type \<Longrightarrow>
   run_calls cs s = (replicate (length cs) (Inr (Ref r)), s)"
  by (induction cs) (simp_all add: call_populated)

lemma populated_state_stable:
  "run_calls ds
     (fresh_state\<lparr>heap := [\<lparr>ob_type = Singleton_type\<rparr>], trace := tr, Singleton_instance := Ref 0\<rparr>) =
   (replicate (length ds) (Inr (Ref 0)),
    fresh_state\<lparr>heap := [\<lparr>ob_type = Singleton_type\<rparr>], trace := tr, Singleton_instance := Ref 0\<rparr>)"
  by (rule run_populated) simp_all

lemma run_absent_all_raise:
  "Singleton_instance s = PyNone \<Longrightarrow> \<forall>a\<in>set cs. excess_args a \<Longrightarrow>
   run_calls cs s =
     (map (\<lambda>a. Inl TypeError) cs,
      s\<lparr>trace := trace s @ map (\<lambda>a. SuperNew a (Inl TypeError)) cs\<rparr>)"
proof (induction cs arbitrary: s)
  case Nil
  then show ?case by simp
next
  case (Cons a cs)
  let ?s1 = "s\<lparr>trace := trace s @ [SuperNew a (Inl TypeError)]\<rparr>"
  have step: "Singleton_call a s = (Inl TypeError, ?s1)"
    using Cons.prems by (simp add: call_absent_raises)
  have "Singleton_instance ?s1 = PyNone" using Cons.prems by simp
  moreover have "\<forall>a\<in>set cs. excess_args a" using Cons.prems by simp
  ultimately have "run_calls cs ?s1 =
      (map (\<lambda>a. Inl TypeError) cs,
       ?s1\<lparr>trace := trace ?s1 @ map (\<lambda>a. SuperNew a (Inl TypeError)) cs\<rparr>)"
    by (rule Cons.IH)
  then show ?case using step by simp
qed

lemma run_absent_first_constructs:
  assumes "Singleton_instance s = PyNone" and "\<not> excess_args a"
  shows "run_calls (a # cs) s =
     (replicate (Suc (length cs)) (Inr (Ref (length (heap s)))),
      s\<lparr>heap := heap s @ [\<lparr>ob_type = Singleton_type\<rparr>],
        trace := trace s @ [SuperNew a (Inr (Ref (length (heap s)))), SetInstance (Ref (length (heap s)))],
        Singleton_instance := Ref (length (heap s))\<rparr>)"
  using assms by (simp add: call_absent_constructs run_populated)

lemma run_append:
  "run_calls (cs @ ds) s =
     (case run_calls cs s of (rs, s1) \<Rightarrow> (case run_calls ds s1 of (qs, s2) \<Rightarrow> (rs @ qs, s2)))"
  by (induction cs arbitrary: s) (simp_all split: prod.splits)

lemma length_run_calls: "length (fst (run_calls cs s)) = length cs"
proof (induction cs arbitrary: s)
  case Nil
  show ?case by simp
next
  case (Cons a cs)
  obtain r s1 where c: "Singleton_call a s = (r, s1)" by (cases "Singleton_call a s")
  obtain rs s2 where r: "run_calls cs s1 = (rs, s2)" by (cases "run_calls cs s1")
  from Cons [of s1] r have "length rs = length cs" by simp
  then show ?case using c r by simp
qed

lemma run_take:
  "run_calls cs s = (rs, s') \<Longrightarrow> fst (run_calls (take k cs) s) = take k rs"
proof -
  assume run: "run_calls cs s = (rs, s')"
  have "run_calls (take k cs @ drop k cs) s = (rs, s')" using run by simp
  then have "rs = fst (run_calls (take k cs) s) @
                  fst (run_calls (drop k cs) (snd (run_calls (take k cs) s)))"
    unfolding run_append by (simp split: prod.splits)
  moreover have "length (fst (run_calls (take k cs) s)) = min (length cs) k"
    by (simp add: length_run_calls)
  moreover have "length rs = length cs" using run length_run_calls [of cs s] by simp
  ultimately show ?thesis
    by (metis append_eq_conv_conj length_take min.commute take_take)
qed

text \<open>
  A run from a state with an empty slot: the calls that pass arguments raise, up to the
  first call that passes none; that call builds the object and every later call returns it.
\<close>

lemma run_absent:
  assumes "Singleton_instance s = PyNone"
  shows "run_calls cs s =
     (map (\<lambda>a. Inl TypeError) (takeWhile excess_args cs) @
      map (\<lambda>a. Inr (Ref (length (heap s)))) (dropWhile excess_args cs),
      (case dropWhile excess_args cs of
         [] \<Rightarrow> s\<lparr>trace := trace s @ map (\<lambda>a. SuperNew a (Inl TypeError)) cs\<rparr>
       | a # ds \<Rightarrow>
           s\<lparr>heap := heap s @ [\<lparr>ob_type = Singleton_type\<rparr>],
             trace := trace s @ map (\<lambda>a. SuperNew a (Inl TypeError)) (takeWhile excess_args cs) @
                      [SuperNew a (Inr (Ref (length (heap s)))), SetInstance (Ref (length (heap s)))],
             Singleton_instance := Ref (length (heap s))\<rparr>))"
proof -
  let ?pre = "takeWhile excess_args cs" and ?post = "dropWhile excess_args cs"
  let ?s1 = "s\<lparr>trace := trace s @ map (\<lambda>a. SuperNew a (Inl TypeError)) ?pre\<rparr>"
  have pre: "run_calls ?pre s = (map (\<lambda>a. Inl TypeError) ?pre, ?s1)"
    using assms by (intro run_absent_all_raise) (auto dest: set_takeWhileD)
  have split: "run_calls cs s = run_calls (?pre @ ?post) s" by simp
  show ?thesis
  proof (cases ?post)
    case Nil
    then have all: "\<forall>a\<in>set cs. excess_args a" by (simp add: dropWhile_eq_Nil_conv)
    then have tw: "takeWhile excess_args cs = cs" by (simp add: takeWhile_eq_all_conv)
    show ?thesis unfolding Nil tw using run_absent_all_raise [OF assms all] by simp
  next
    case (Cons a ds)
    then have na: "\<not> excess_args a" by (metis hd_dropWhile list.sel(1) list.distinct(1))
    have "Singleton_instance ?s1 = PyNone" using assms by simp
    from run_absent_first_constructs [OF this na, of ds]
    show ?thesis unfolding split run_append pre using Cons by (simp add: replicate_append_same map_replicate_const)
  qed
qed

lemma run_fresh:
  "run_calls cs fresh_state =
     (map (\<lambda>a. Inl TypeError) (takeWhile excess_args cs) @
      map (\<lambda>a. Inr (Ref 0)) (dropWhile excess_args cs),
      (case dropWhile excess_args cs of
         [] \<Rightarrow> fresh_state\<lparr>trace := map (\<lambda>a. SuperNew a (Inl TypeError)) cs\<rparr>
       | a # ds \<Rightarrow>
           fresh_state\<lparr>heap := [\<lparr>ob_type = Singleton_type\<rparr>],
             trace := map (\<lambda>a. SuperNew a (Inl TypeError)) (takeWhile excess_args cs) @
                      [SuperNew a (Inr (Ref 0)), SetInstance (Ref 0)],
             Singleton_instance := Ref 0\<rparr>))"
proof -
  have slot: "Singleton_instance fresh_state = PyNone"
    and h: "heap fresh_state = []" and t: "trace fresh_state = []"
    by (simp_all add: fresh_state_def)
  note eq = run_absent [OF slot, of cs]
  show ?thesis
  proof (cases "dropWhile excess_args cs")
    case Nil
    show ?thesis using eq unfolding Nil h t by simp
  next
    case (Cons a ds)
    show ?thesis using eq unfolding Cons h t by simp
  qed
qed

lemma run_fresh_results:
  "run_calls cs fresh_state = (rs, s') \<Longrightarrow>
   rs = map (\<lambda>a. Inl TypeError) (takeWhile excess_args cs) @
        map (\<lambda>a. Inr (Ref 0)) (dropWhile excess_args cs)"
  by (simp add: run_fresh)

lemma raised_events_filters:
  "filter is_super_new (map (\<lambda>a. SuperNew a (Inl TypeError)) xs) =
     map (\<lambda>a. SuperNew a (Inl TypeError)) xs"
  "filter is_new_returned (map (\<lambda>a. SuperNew a (Inl TypeError)) xs) = []"
  "filter is_set_instance (map (\<lambda>a. SuperNew a (Inl TypeError)) xs) = []"
  by (induction xs) simp_all

lemma run_fresh_cases [consumes 1, case_names all_raise constructed]:
  assumes "run_calls cs fresh_state = (rs, s')"
  obtains
    "\<forall>a\<in>set cs. excess_args a"
    "rs = map (\<lambda>a. Inl TypeError) cs"
    "s' = fresh_state\<lparr>trace := map (\<lambda>a. SuperNew a (Inl TypeError)) cs\<rparr>"
  | pre a post where
    "cs = pre @ a # post" "\<forall>b\<in>set pre. excess_args b" "\<not> excess_args a"
    "takeWhile excess_args cs = pre"
    "rs = map (\<lambda>b. Inl TypeError) pre @ replicate (Suc (length post)) (Inr (Ref 0))"
    "s' = fresh_state\<lparr>heap := [\<lparr>ob_type = Singleton_type\<rparr>],
            trace := map (\<lambda>b. SuperNew b (Inl TypeError)) pre @
                     [SuperNew a (Inr (Ref 0)), SetInstance (Ref 0)],
            Singleton_instance := Ref 0\<rparr>"
proof (cases "dropWhile excess_args cs")
  case Nil
  then have all: "\<forall>a\<in>set cs. excess_args a" by (simp add: dropWhile_eq_Nil_conv)
  then have tw: "takeWhile excess_args cs = cs" by (simp add: takeWhile_eq_all_conv)
  from assms have "rs = map (\<lambda>a. Inl TypeError) cs"
    and "s' = fresh_state\<lparr>trace := map (\<lambda>a. SuperNew a (Inl TypeError)) cs\<rparr>"
    unfolding run_fresh Nil tw by simp_all
  with all show ?thesis by (rule that(1))
next
  case (Cons a post)
  let ?pre = "takeWhile excess_args cs"
  have cs: "cs = ?pre @ a # post" using Cons by (metis takeWhile_dropWhile_id)
  have pre: "\<forall>b\<in>set ?pre. excess_args b" by (auto dest: set_takeWhileD)
  have na: "\<not> excess_args a" using Cons by (metis hd_dropWhile list.sel(1) list.distinct(1))
  from assms have "rs = map (\<lambda>b. Inl TypeError) ?pre @ replicate (Suc (length post)) (Inr (Ref 0))"
    and "s' = fresh_state\<lparr>heap := [\<lparr>ob_type = Singleton_type\<rparr>],
            trace := map (\<lambda>b. SuperNew b (Inl TypeError)) ?pre @
                     [SuperNew a (Inr (Ref 0)), SetInstance (Ref 0)],
            Singleton_instance := Ref 0\<rparr>"
    unfolding run_fresh Cons by (simp_all add: map_replicate_const)
  with cs pre na show ?thesis by (intro that(2) [of ?pre a post]) simp_all
qed

lemma run_fresh_slot_ok: "run_calls cs fresh_state = (rs, s) \<Longrightarrow> slot_ok s"
  by (cases rule: run_fresh_cases) (auto simp: slot_ok_def fresh_state_fields)

lemma run_fresh_assignments:
  assumes "run_calls cs fresh_state = (rs, s')"
  shows "slot_assignments s' = (if \<exists>r. Inr r \<in> set rs then 1 else 0)"
  using assms
proof (cases rule: run_fresh_cases)
  case all_raise
  have "slot_assignments s' = 0"
    unfolding all_raise(3) by (simp add: slot_assignments_def raised_events_filters)
  moreover have "\<not> (\<exists>r. Inr r \<in> set rs)" unfolding all_raise(2) by auto
  ultimately show ?thesis by simp
next
  case (constructed pre a post)
  have "slot_assignments s' = 1"
    unfolding constructed(6) by (simp add: slot_assignments_def raised_events_filters)
  moreover have "Inr (Ref 0) \<in> set rs" unfolding constructed(5) by simp
  ultimately show ?thesis by auto
qed

lemma run_fresh_slot:
  assumes "run_calls cs fresh_state = (rs, s')"
  shows "Singleton_instance s' = (if \<exists>r. Inr r \<in> set rs then Ref 0 else PyNone)"
  using assms
proof (cases rule: run_fresh_cases)
  case all_raise
  have "\<not> (\<exists>r. Inr r \<in> set rs)" unfolding all_raise(2) by auto
  then show ?thesis unfolding all_raise(3) by (simp add: fresh_state_fields)
next
  case (constructed pre a post)
  have "Inr (Ref 0) \<in> set rs" unfolding constructed(5) by simp
  then have "\<exists>r. Inr r \<in> set rs" by blast
  then show ?thesis unfolding constructed(6) by simp
qed

lemma run_take_state:
  assumes "run_calls cs fresh_state = (rs, s')"
  shows "Singleton_instance (snd (run_calls (take k cs) fresh_state)) =
           (if \<exists>r. Inr r \<in> set (take k rs) then Ref 0 else PyNone)"
proof -
  obtain qs t where run: "run_calls (take k cs) fresh_state = (qs, t)"
    by (cases "run_calls (take k cs) fresh_state")
  from run_take [OF assms, of k] run have "qs = take k rs" by simp
  with run_fresh_slot [OF run] run show ?thesis by simp
qed

text \<open>
  Two concrete runs, evaluated.
\<close>

lemma run_build_keep_keep:
  "run_calls [no_args, one_arg, no_args] fresh_state =
     ([Inr (Ref 0), Inr (Ref 0), Inr (Ref 0)],
      \<lparr>Singleton_instance = Ref 0, heap = [\<lparr>ob_type = Singleton_type\<rparr>],
       singleton1 = None, singleton2 = None, stdout = [],
       trace = [SuperNew no_args (Inr (Ref 0)), SetInstance (Ref 0)]\<rparr>)"
  by (simp add: eval_defs)

lemma run_raise_build_keep:
  "run_calls [one_arg, no_args, one_arg] fresh_state =
     ([Inl TypeError, Inr (Ref 0), Inr (Ref 0)],
      \<lparr>Singleton_instance = Ref 0, heap = [\<lparr>ob_type = Singleton_type\<rparr>],
       singleton1 = None, singleton2 = None, stdout = [],
       trace = [SuperNew one_arg (Inl TypeError), SuperNew no_args (Inr (Ref 0)),
                SetInstance (Ref 0)]\<rparr>)"
  by (simp add: eval_defs)

lemma final_state_raise_build_keep:
  "snd (run_calls [one_arg, no_args, one_arg] fresh_state) =
     \<lparr>Singleton_instance = Ref 0, heap = [\<lparr>ob_type = Singleton_type\<rparr>],
      singleton1 = None, singleton2 = None, stdout = [],
      trace = [SuperNew one_arg (Inl TypeError), SuperNew no_args (Inr (Ref 0)),
               SetInstance (Ref 0)]\<rparr>"
  unfolding run_raise_build_keep by simp

section \<open>The claims\<close>

subsection \<open>C1: identity of the returned references\<close>

text \<open>
  Claim C1 on the fresh class, at the three calls \<^verbatim>\<open>Singleton(name='x')\<close>,
  \<^verbatim>\<open>Singleton()\<close>, \<^verbatim>\<open>Singleton(1)\<close>: the first call raises TypeError and returns no
  reference, so of \<open>N = 3\<close> calls only two return one. The cause is the forwarding of
  the arguments to \<^verbatim>\<open>object.__new__\<close>, as in C5.
\<close>

theorem first_call_raises_not_all_N_return:
  "run_calls [kw_arg, no_args, one_arg] fresh_state =
     ([Inl TypeError, Inr (Ref 0), Inr (Ref 0)],
      \<lparr>Singleton_instance = Ref 0, heap = [\<lparr>ob_type = Singleton_type\<rparr>],
       singleton1 = None, singleton2 = None, stdout = [],
       trace = [SuperNew kw_arg (Inl TypeError), SuperNew no_args (Inr (Ref 0)),
                SetInstance (Ref 0)]\<rparr>)"
  by (simp add: eval_defs)

text \<open>
  What the code does keep. In every sequence of calls from the fresh class, any two
  references that calls return are the same; when the first call returns, every call
  returns that reference, whatever the later arguments; and when the first call passes
  no arguments, it returns.
\<close>

lemma returned_references_agree:
  assumes "run_calls cs fresh_state = (rs, s')"
  shows "(\<forall>x y. Inr x \<in> set rs \<and> Inr y \<in> set rs \<longrightarrow> py_is x y) \<and>
         (\<forall>x. cs \<noteq> [] \<and> hd rs = Inr x \<longrightarrow> rs = replicate (length cs) (Inr x)) \<and>
         (cs \<noteq> [] \<and> \<not> excess_args (hd cs) \<longrightarrow> rs = replicate (length cs) (Inr (Ref 0)))"
proof -
  let ?pre = "takeWhile excess_args cs" and ?post = "dropWhile excess_args cs"
  have rs: "rs = map (\<lambda>a. Inl TypeError) ?pre @ map (\<lambda>a. Inr (Ref 0)) ?post"
    using assms by (rule run_fresh_results)
  have same: "\<forall>x y. Inr x \<in> set rs \<and> Inr y \<in> set rs \<longrightarrow> py_is x y"
    unfolding rs by (auto simp: py_is_def)
  have first_none: "rs = replicate (length cs) (Inr (Ref 0))" if "cs \<noteq> []" "\<not> excess_args (hd cs)"
  proof -
    from that have "?pre = []" by (cases cs) simp_all
    moreover from that have "?post = cs" by (cases cs) simp_all
    ultimately show ?thesis unfolding rs by (simp add: map_replicate_const)
  qed
  have first_ret: "rs = replicate (length cs) (Inr x)" if "cs \<noteq> []" "hd rs = Inr x" for x
  proof -
    from that obtain a as where cs: "cs = a # as" by (cases cs) auto
    have na: "\<not> excess_args a"
    proof
      assume "excess_args a"
      then have "hd rs = Inl TypeError" unfolding rs cs by simp
      with that show False by simp
    qed
    then have "rs = replicate (length cs) (Inr (Ref 0))" using first_none cs by simp
    moreover from this that cs have "x = Ref 0" by simp
    ultimately show ?thesis by simp
  qed
  from same first_none first_ret show ?thesis by blast
qed

text \<open>
  A returned reference is what the slot holds at the end of the run, and it refers to the
  one object on the heap, an instance of the class.
\<close>

lemma returned_references_identical:
  assumes "run_calls cs fresh_state = (rs, s')"
  shows "(\<forall>x. Inr x \<in> set rs \<longrightarrow>
            x = Singleton_instance s' \<and> isinstance (heap s') x Singleton_type \<and>
            heap s' = [\<lparr>ob_type = Singleton_type\<rparr>]) \<and>
         (\<forall>x y. Inr x \<in> set rs \<and> Inr y \<in> set rs \<longrightarrow> py_is x y) \<and>
         (\<forall>x. cs \<noteq> [] \<and> hd rs = Inr x \<longrightarrow> rs = replicate (length cs) (Inr x))"
proof -
  have pinned: "x = Singleton_instance s' \<and> isinstance (heap s') x Singleton_type \<and>
            heap s' = [\<lparr>ob_type = Singleton_type\<rparr>]" if "Inr x \<in> set rs" for x
    using assms that
  proof (cases rule: run_fresh_cases)
    case all_raise
    from that show ?thesis unfolding all_raise(2) by auto
  next
    case (constructed pre a post)
    from that have "x = Ref 0" unfolding constructed(5) by auto
    then show ?thesis unfolding constructed(6) by simp
  qed
  from returned_references_agree [OF assms] pinned show ?thesis by blast
qed

subsection \<open>C2: how often the underlying constructor runs\<close>

text \<open>
  Claim C2 on the fresh class, at two calls \<^verbatim>\<open>Singleton(1)\<close>: each finds the slot
  \<^verbatim>\<open>None\<close>, executes the \<^verbatim>\<open>super(...).__new__\<close> call and ends with its TypeError, so
  the constructor is executed twice. The cause is the forwarding of the arguments to
  \<^verbatim>\<open>object.__new__\<close>, as in C5.
\<close>

theorem constructor_executed_twice:
  "run_calls [one_arg, one_arg] fresh_state =
     ([Inl TypeError, Inl TypeError],
      \<lparr>Singleton_instance = PyNone, heap = [], singleton1 = None, singleton2 = None,
       stdout = [],
       trace = [SuperNew one_arg (Inl TypeError), SuperNew one_arg (Inl TypeError)]\<rparr>) \<and>
   new_executions (snd (run_calls [one_arg, one_arg] fresh_state)) = 2"
  by (simp add: eval_defs new_executions_def)

text \<open>
  Where no call passes arguments the claim holds: the constructor is executed once, by
  the first call.
\<close>

lemma constructor_once_without_arguments:
  assumes "\<forall>a\<in>set cs. \<not> excess_args a"
  shows "new_executions (snd (run_calls cs fresh_state)) = (if cs = [] then 0 else 1)"
proof (cases cs)
  case Nil
  then show ?thesis by (simp add: new_executions_def fresh_state_fields)
next
  case (Cons a ds)
  with assms have na: "\<not> excess_args a" by simp
  have slot: "Singleton_instance fresh_state = PyNone" by (rule fresh_state_fields)
  from run_absent_first_constructs [OF slot na, of ds]
  show ?thesis unfolding Cons by (simp add: new_executions_def fresh_state_fields)
qed

subsection \<open>C3: the demonstration\<close>

text \<open>
  Claim C3. On the fresh class the first call returns the reference to the object at
  address 0 and so does the second; \<^verbatim>\<open>is\<close> of the two is true and prints as
  \<^verbatim>\<open>True\<close>. The module body runs to its end: both globals hold that reference and
  the one line printed is \<^verbatim>\<open>True\<close>.
\<close>

theorem demonstration_prints_True:
  "fst (Singleton_call no_args fresh_state) = Inr (Ref 0) \<and>
   fst (Singleton_call no_args (snd (Singleton_call no_args fresh_state)\<lparr>singleton1 := Some (Ref 0)\<rparr>)) =
     Inr (Ref 0) \<and>
   py_is (Ref 0) (Ref 0) = True \<and>
   str_bool (py_is (Ref 0) (Ref 0)) = ''True'' \<and>
   module_exec =
     Inr \<lparr>Singleton_instance = Ref 0, heap = [\<lparr>ob_type = Singleton_type\<rparr>],
          singleton1 = Some (Ref 0), singleton2 = Some (Ref 0), stdout = [''True''],
          trace = [SuperNew no_args (Inr (Ref 0)), SetInstance (Ref 0)]\<rparr>"
  by (simp add: module_exec_def module_usage_def eval_defs py_is_def str_bool_def)

subsection \<open>C4: the slot invariant and the one-way state machine\<close>

text \<open>
  Claim C4. After any sequence of calls from the fresh class the slot is \<^verbatim>\<open>None\<close> (and
  no object exists) or refers to the one object of class \<^verbatim>\<open>Singleton\<close> on the heap.
  Once it refers to an object, it refers to the same object after any further calls: the
  state machine starts in \<open>Uninitialized\<close> and never leaves \<open>Initialized\<close>.
\<close>

theorem slot_invariant:
  assumes "run_calls cs fresh_state = (rs, s)"
  shows "slot_ok s \<and>
         (Singleton_instance s = PyNone \<and> heap s = [] \<or>
          Singleton_instance s = Ref 0 \<and> heap s = [\<lparr>ob_type = Singleton_type\<rparr>]) \<and>
         (\<forall>a ds. Singleton_instance s = Ref a \<longrightarrow>
            Singleton_instance (snd (run_calls ds s)) = Ref a) \<and>
         phase_of fresh_state = Uninitialized \<and>
         (\<forall>ds. phase_of s = Initialized \<longrightarrow> phase_of (snd (run_calls ds s)) = Initialized)"
proof -
  have ok: "slot_ok s" using assms by (rule run_fresh_slot_ok)
  have shape: "Singleton_instance s = PyNone \<and> heap s = [] \<or>
          Singleton_instance s = Ref 0 \<and> heap s = [\<lparr>ob_type = Singleton_type\<rparr>]"
    using assms by (cases rule: run_fresh_cases) (auto simp: fresh_state_fields)
  have keep: "run_calls ds s = (replicate (length ds) (Inr (Ref a)), s)"
    if "Singleton_instance s = Ref a" for a ds
    using that ok by (intro run_populated) (simp_all add: slot_ok_def)
  have stay: "Singleton_instance (snd (run_calls ds s)) = Ref a"
    if "Singleton_instance s = Ref a" for a ds
    using keep [OF that, of ds] that by simp
  have init: "phase_of fresh_state = Uninitialized"
    by (simp add: phase_of_def fresh_state_def)
  have phase: "phase_of (snd (run_calls ds s)) = Initialized" if "phase_of s = Initialized" for ds
  proof -
    from that obtain a where a: "Singleton_instance s = Ref a"
      by (cases "Singleton_instance s") (simp_all add: phase_of_def)
    from keep [OF a, of ds] that show ?thesis by simp
  qed
  from ok shape stay init phase show ?thesis by blast
qed

text \<open>
  After \<^verbatim>\<open>Singleton(1); Singleton(); Singleton(1)\<close> the slot refers to the object at
  address 0, and still does after two more calls.
\<close>

theorem slot_invariant_witness:
  "slot_ok (snd (run_calls [one_arg, no_args, one_arg] fresh_state)) \<and>
   Singleton_instance (snd (run_calls [one_arg, no_args, one_arg] fresh_state)) = Ref 0 \<and>
   Singleton_instance
     (snd (run_calls [one_arg, no_args] (snd (run_calls [one_arg, no_args, one_arg] fresh_state)))) =
   Ref 0"
proof -
  let ?s = "snd (run_calls [one_arg, no_args, one_arg] fresh_state)"
  have run: "run_calls [one_arg, no_args, one_arg] fresh_state = ([Inl TypeError, Inr (Ref 0), Inr (Ref 0)], ?s)"
    unfolding final_state_raise_build_keep by (rule run_raise_build_keep)
  note th = slot_invariant [OF run]
  have slot: "Singleton_instance ?s = Ref 0" unfolding final_state_raise_build_keep by simp
  from th have ok: "slot_ok ?s"
    and keep: "\<forall>a ds. Singleton_instance ?s = Ref a \<longrightarrow>
                 Singleton_instance (snd (run_calls ds ?s)) = Ref a"
    by blast+
  from keep slot have "Singleton_instance (snd (run_calls [one_arg, no_args] ?s)) = Ref 0" by blast
  with ok slot show ?thesis by simp
qed

subsection \<open>C5: arguments of the first call\<close>

text \<open>
  Claim C5 at \<open>args1 = (1,)\<close> and \<open>args2 = ()\<close>, on the fresh class: the first call
  raises TypeError and returns no reference; the object is built by the second call, from
  the second call's (empty) arguments.
\<close>

theorem first_call_arguments_rejected:
  "run_calls [one_arg, no_args] fresh_state =
     ([Inl TypeError, Inr (Ref 0)],
      \<lparr>Singleton_instance = Ref 0, heap = [\<lparr>ob_type = Singleton_type\<rparr>],
       singleton1 = None, singleton2 = None, stdout = [],
       trace = [SuperNew one_arg (Inl TypeError), SuperNew no_args (Inr (Ref 0)),
                SetInstance (Ref 0)]\<rparr>)"
  by (simp add: eval_defs)

text \<open>
  The part of C5 the code does keep: when the first call passes no arguments, a second
  call returns the same reference whatever its arguments \<open>b\<close> are, and the state
  it leaves does not depend on them.
\<close>

lemma later_call_arguments_ignored:
  "run_calls [no_args, b] fresh_state =
     ([Inr (Ref 0), Inr (Ref 0)],
      \<lparr>Singleton_instance = Ref 0, heap = [\<lparr>ob_type = Singleton_type\<rparr>],
       singleton1 = None, singleton2 = None, stdout = [],
       trace = [SuperNew no_args (Inr (Ref 0)), SetInstance (Ref 0)]\<rparr>)"
proof -
  have first: "Singleton_call no_args fresh_state =
     (Inr (Ref 0),
      \<lparr>Singleton_instance = Ref 0, heap = [\<lparr>ob_type = Singleton_type\<rparr>],
       singleton1 = None, singleton2 = None, stdout = [],
       trace = [SuperNew no_args (Inr (Ref 0)), SetInstance (Ref 0)]\<rparr>)"
    by (simp add: eval_defs)
  show ?thesis unfolding run_calls.simps first by (simp add: call_populated)
qed

subsection \<open>C6: an error of the constructor\<close>



subsection \<open>C7: the steps of one call\<close>

text \<open>
  Claim C7 on the fresh class, at the call \<^verbatim>\<open>Singleton(name='x')\<close>: the slot is
  \<^verbatim>\<open>None\<close>, yet no object is built from the supplied arguments, nothing is stored in
  the slot and the call returns no reference; it ends with the TypeError of
  \<^verbatim>\<open>object.__new__\<close>. The cause is the forwarding of the arguments, as in C5.
\<close>

theorem call_with_arguments_builds_nothing:
  "Singleton_instance fresh_state = PyNone \<and>
   Singleton_call kw_arg fresh_state =
     (Inl TypeError,
      \<lparr>Singleton_instance = PyNone, heap = [], singleton1 = None, singleton2 = None,
       stdout = [], trace = [SuperNew kw_arg (Inl TypeError)]\<rparr>)"
  by (simp add: eval_defs)

text \<open>
  The steps as the code runs them, in a state where the slot is \<^verbatim>\<open>None\<close> or refers to
  an instance of the class: with the slot \<^verbatim>\<open>None\<close> the call runs \<^verbatim>\<open>object.__new__\<close> on
  the arguments it was given, and either ends with its error or stores the new reference
  in the slot and returns it; with the slot set the call returns the slot and changes
  nothing.
\<close>

lemma call_steps_when_constructor_answers:
  assumes "slot_ok s"
  shows "(Singleton_instance s = PyNone \<longrightarrow>
            (\<forall>e. object_new Singleton_type a (heap s) = Inl e \<longrightarrow>
                 Singleton_call a s = (Inl e, s\<lparr>trace := trace s @ [SuperNew a (Inl e)]\<rparr>)) \<and>
            (\<forall>r h. object_new Singleton_type a (heap s) = Inr (r, h) \<longrightarrow>
                 Singleton_call a s =
                   (Inr r, s\<lparr>heap := h, trace := trace s @ [SuperNew a (Inr r), SetInstance r],
                             Singleton_instance := r\<rparr>))) \<and>
         (Singleton_instance s \<noteq> PyNone \<longrightarrow> Singleton_call a s = (Inr (Singleton_instance s), s)) \<and>
         (\<forall>r s'. Singleton_call a s = (Inr r, s') \<longrightarrow> r = Singleton_instance s' \<and> r \<noteq> PyNone)"
proof -
  have raise: "Singleton_call a s = (Inl e, s\<lparr>trace := trace s @ [SuperNew a (Inl e)]\<rparr>)"
    if "Singleton_instance s = PyNone" "object_new Singleton_type a (heap s) = Inl e" for e
    using that by (simp add: Singleton_call_def Singleton_new_def)
  have build: "Singleton_call a s =
      (Inr r, s\<lparr>heap := h, trace := trace s @ [SuperNew a (Inr r), SetInstance r],
                Singleton_instance := r\<rparr>)"
    if "Singleton_instance s = PyNone" "object_new Singleton_type a (heap s) = Inr (r, h)" for r h
  proof -
    from that(2) have na: "\<not> excess_args a" and r: "r = Ref (length (heap s))"
      and h: "h = heap s @ [\<lparr>ob_type = Singleton_type\<rparr>]"
      by (auto simp: object_new_def Singleton_type_def split: if_splits)
    from call_absent_constructs [OF that(1) na] show ?thesis unfolding r h by simp
  qed
  have old: "Singleton_call a s = (Inr (Singleton_instance s), s)" if "Singleton_instance s \<noteq> PyNone"
    using assms that by (rule call_slot_ok_populated)
  have ret: "r = Singleton_instance s' \<and> r \<noteq> PyNone" if "Singleton_call a s = (Inr r, s')" for r s'
  proof (cases "Singleton_instance s = PyNone")
    case True
    show ?thesis
    proof (cases "excess_args a")
      case e: True
      from call_absent_raises [OF True e] that show ?thesis by simp
    next
      case e: False
      from call_absent_constructs [OF True e] that show ?thesis by auto
    qed
  next
    case False
    from old [OF False] that False show ?thesis by auto
  qed
  from raise build old ret show ?thesis by blast
qed

subsection \<open>C8: the frame\<close>

text \<open>
  Claim C8. In a run from the fresh class, after the first \<open>k\<close> calls the slot
  \<^verbatim>\<open>Singleton._instance\<close> refers to the object at address 0 if one of these calls
  returned and is \<^verbatim>\<open>None\<close> otherwise, for every \<open>k\<close>; the content of the slot changes
  at a call exactly when that call returns and none before it did; and the assignment
  statement has been executed once if one of the first \<open>k\<close> calls returned and not at all
  otherwise. The globals and the printed lines are as before the run, and the heap holds
  the one object built, if any. From any state, one call leaves the globals, the printed
  lines and the objects already on the heap as they were, and either leaves slot and
  heap unchanged or puts one new object on the heap, stores its reference in the slot
  and returns it.
\<close>

theorem slot_mutated_once:
  assumes "run_calls cs fresh_state = (rs, s')"
  shows "(\<forall>k. Singleton_instance (snd (run_calls (take k cs) fresh_state)) =
              (if \<exists>r. Inr r \<in> set (take k rs) then Ref 0 else PyNone)) \<and>
         (\<forall>k<length cs.
            (Singleton_instance (snd (run_calls (take (Suc k) cs) fresh_state)) \<noteq>
             Singleton_instance (snd (run_calls (take k cs) fresh_state))) =
            ((\<exists>r. rs ! k = Inr r) \<and> \<not> (\<exists>r. Inr r \<in> set (take k rs)))) \<and>
         (\<forall>k. slot_assignments (snd (run_calls (take k cs) fresh_state)) =
              (if \<exists>r. Inr r \<in> set (take k rs) then 1 else 0)) \<and>
         Singleton_instance s' = (if \<exists>r. Inr r \<in> set rs then Ref 0 else PyNone) \<and>
         slot_assignments s' = (if \<exists>r. Inr r \<in> set rs then 1 else 0) \<and>
         singleton1 s' = singleton1 fresh_state \<and> singleton2 s' = singleton2 fresh_state \<and>
         stdout s' = stdout fresh_state \<and>
         heap s' = (if \<exists>r. Inr r \<in> set rs then [\<lparr>ob_type = Singleton_type\<rparr>] else heap fresh_state) \<and>
         (\<forall>b t. singleton1 (snd (Singleton_call b t)) = singleton1 t \<and>
                singleton2 (snd (Singleton_call b t)) = singleton2 t \<and>
                stdout (snd (Singleton_call b t)) = stdout t \<and>
                take (length (heap t)) (heap (snd (Singleton_call b t))) = heap t \<and>
                (Singleton_instance (snd (Singleton_call b t)) = Singleton_instance t \<and>
                   heap (snd (Singleton_call b t)) = heap t \<or>
                 Singleton_instance (snd (Singleton_call b t)) = Ref (length (heap t)) \<and>
                   heap (snd (Singleton_call b t)) = heap t @ [\<lparr>ob_type = Singleton_type\<rparr>] \<and>
                   fst (Singleton_call b t) = Inr (Ref (length (heap t)))))"
proof -
  have len: "length rs = length cs" using assms length_run_calls [of cs fresh_state] by simp
  have slots: "Singleton_instance (snd (run_calls (take k cs) fresh_state)) =
              (if \<exists>r. Inr r \<in> set (take k rs) then Ref 0 else PyNone)" for k
    using assms by (rule run_take_state)
  have change: "(Singleton_instance (snd (run_calls (take (Suc k) cs) fresh_state)) \<noteq>
             Singleton_instance (snd (run_calls (take k cs) fresh_state))) =
            ((\<exists>r. rs ! k = Inr r) \<and> \<not> (\<exists>r. Inr r \<in> set (take k rs)))" if "k < length cs" for k
  proof -
    from that len have "take (Suc k) rs = take k rs @ [rs ! k]"
      by (simp add: take_Suc_conv_app_nth)
    then have "set (take (Suc k) rs) = insert (rs ! k) (set (take k rs))"
      by simp
    then have "(\<exists>r. Inr r \<in> set (take (Suc k) rs)) =
               ((\<exists>r. Inr r \<in> set (take k rs)) \<or> (\<exists>r. rs ! k = Inr r))"
      by (metis insert_iff)
    then show ?thesis unfolding slots [of "Suc k"] slots [of k] by auto
  qed
  have counts: "slot_assignments (snd (run_calls (take k cs) fresh_state)) =
              (if \<exists>r. Inr r \<in> set (take k rs) then 1 else 0)" for k
  proof -
    obtain qs t where run: "run_calls (take k cs) fresh_state = (qs, t)"
      by (cases "run_calls (take k cs) fresh_state")
    from run_take [OF assms, of k] run have "qs = take k rs" by simp
    with run_fresh_assignments [OF run] run show ?thesis by simp
  qed
  have final: "Singleton_instance s' = (if \<exists>r. Inr r \<in> set rs then Ref 0 else PyNone)"
    using assms by (rule run_fresh_slot)
  have total: "slot_assignments s' = (if \<exists>r. Inr r \<in> set rs then 1 else 0)"
    using assms by (rule run_fresh_assignments)
  have rest: "singleton1 s' = singleton1 fresh_state \<and> singleton2 s' = singleton2 fresh_state \<and>
         stdout s' = stdout fresh_state \<and>
         heap s' = (if \<exists>r. Inr r \<in> set rs then [\<lparr>ob_type = Singleton_type\<rparr>] else heap fresh_state)"
    using assms
  proof (cases rule: run_fresh_cases)
    case all_raise
    have "\<not> (\<exists>r. Inr r \<in> set rs)" unfolding all_raise(2) by auto
    then show ?thesis unfolding all_raise(3) by simp
  next
    case (constructed pre a post)
    have "Inr (Ref 0) \<in> set rs" unfolding constructed(5) by simp
    then have "\<exists>r. Inr r \<in> set rs" by blast
    then show ?thesis unfolding constructed(6) by simp
  qed
  have frame: "singleton1 (snd (Singleton_call b t)) = singleton1 t \<and>
                singleton2 (snd (Singleton_call b t)) = singleton2 t \<and>
                stdout (snd (Singleton_call b t)) = stdout t \<and>
                take (length (heap t)) (heap (snd (Singleton_call b t))) = heap t \<and>
                (Singleton_instance (snd (Singleton_call b t)) = Singleton_instance t \<and>
                   heap (snd (Singleton_call b t)) = heap t \<or>
                 Singleton_instance (snd (Singleton_call b t)) = Ref (length (heap t)) \<and>
                   heap (snd (Singleton_call b t)) = heap t @ [\<lparr>ob_type = Singleton_type\<rparr>] \<and>
                   fst (Singleton_call b t) = Inr (Ref (length (heap t))))" for b t
    using call_frame [of b t] call_slot_frame [of b t] by blast
  from slots change counts final total rest frame show ?thesis by blast
qed

text \<open>
  The run \<^verbatim>\<open>Singleton(1); Singleton(); Singleton(1)\<close>: the slot is \<^verbatim>\<open>None\<close> after one
  call and refers to the object at address 0 after two and after all three; no
  assignment after one call, one after two, one after all three.
\<close>

theorem slot_mutated_once_witness:
  "Singleton_instance (snd (run_calls (take 1 [one_arg, no_args, one_arg]) fresh_state)) = PyNone \<and>
   Singleton_instance (snd (run_calls (take 2 [one_arg, no_args, one_arg]) fresh_state)) = Ref 0 \<and>
   Singleton_instance (snd (run_calls [one_arg, no_args, one_arg] fresh_state)) = Ref 0 \<and>
   slot_assignments (snd (run_calls (take 1 [one_arg, no_args, one_arg]) fresh_state)) = 0 \<and>
   slot_assignments (snd (run_calls (take 2 [one_arg, no_args, one_arg]) fresh_state)) = 1 \<and>
   slot_assignments (snd (run_calls [one_arg, no_args, one_arg] fresh_state)) = 1 \<and>
   heap (snd (run_calls [one_arg, no_args, one_arg] fresh_state)) = [\<lparr>ob_type = Singleton_type\<rparr>]"
proof -
  let ?cs = "[one_arg, no_args, one_arg]"
  let ?rs = "[Inl TypeError, Inr (Ref 0), Inr (Ref 0) :: error + pyval]"
  let ?s = "snd (run_calls ?cs fresh_state)"
  have run: "run_calls ?cs fresh_state = (?rs, ?s)"
    unfolding final_state_raise_build_keep by (rule run_raise_build_keep)
  note th = slot_mutated_once [OF run]
  from th have slots: "\<forall>k. Singleton_instance (snd (run_calls (take k ?cs) fresh_state)) =
              (if \<exists>r. Inr r \<in> set (take k ?rs) then Ref 0 else PyNone)"
    and counts: "\<forall>k. slot_assignments (snd (run_calls (take k ?cs) fresh_state)) =
              (if \<exists>r. Inr r \<in> set (take k ?rs) then 1 else 0)"
    and final: "Singleton_instance ?s = (if \<exists>r. Inr r \<in> set ?rs then Ref 0 else PyNone)"
    and total: "slot_assignments ?s = (if \<exists>r. Inr r \<in> set ?rs then 1 else 0)"
    and hp: "heap ?s = (if \<exists>r. Inr r \<in> set ?rs then [\<lparr>ob_type = Singleton_type\<rparr>] else heap fresh_state)"
    by blast+
  have some: "\<exists>r. Inr r \<in> set ?rs" by simp
  have k1: "\<not> (\<exists>r. Inr r \<in> set (take 1 ?rs))" by simp
  have k2: "\<exists>r. Inr r \<in> set (take 2 ?rs)" by (simp add: numeral_2_eq_2)
  from slots [rule_format, of 1] k1
  have a: "Singleton_instance (snd (run_calls (take 1 ?cs) fresh_state)) = PyNone"
    by (simp only: if_False)
  from slots [rule_format, of 2] k2
  have b: "Singleton_instance (snd (run_calls (take 2 ?cs) fresh_state)) = Ref 0"
    by (simp only: if_True)
  from final some have c: "Singleton_instance ?s = Ref 0" by (simp only: if_True)
  from counts [rule_format, of 1] k1
  have d: "slot_assignments (snd (run_calls (take 1 ?cs) fresh_state)) = 0"
    by (simp only: if_False)
  from counts [rule_format, of 2] k2
  have e: "slot_assignments (snd (run_calls (take 2 ?cs) fresh_state)) = 1"
    by (simp only: if_True)
  from total some have f: "slot_assignments ?s = 1" by (simp only: if_True)
  from hp some have g: "heap ?s = [\<lparr>ob_type = Singleton_type\<rparr>]" by (simp only: if_True)
  from a b c d e f g show ?thesis by blast
qed

subsection \<open>C9: the truth test of the guard\<close>



subsection \<open>C10: the state the module body leaves\<close>


end
